theory Spec2Isabelle
  imports Complex_Main
begin

section \<open>Values decoded from JSON\<close>

text \<open>
  The client handles whatever \<^verbatim>\<open>resp.json()\<close> returns: Python's \<^verbatim>\<open>None\<close>, a bool, an
  int, a float, a str, a list or a dict with string keys. \<open>JNull\<close> is Python's \<^verbatim>\<open>None\<close>,
  so a field that the source leaves at \<^verbatim>\<open>None\<close> holds \<open>JNull\<close>. A dict is an association
  list, looked up with \<open>map_of\<close>. Floats are the finite ones, as rationals.
\<close>

datatype json =
    JNull
  | JBool bool
  | JInt int
  | JFloat rat
  | JStr string
  | JList "json list"
  | JDict "(string \<times> json) list"

type_synonym dict = "(string \<times> json) list"

text \<open>\<^verbatim>\<open>d.get(key, default)\<close> and \<^verbatim>\<open>d.get(key)\<close> of a dict.\<close>

definition dict_get :: "dict \<Rightarrow> string \<Rightarrow> json \<Rightarrow> json" where
  "dict_get d k dflt = (case map_of d k of None \<Rightarrow> dflt | Some v \<Rightarrow> v)"

definition dict_get_none :: "dict \<Rightarrow> string \<Rightarrow> json" where
  "dict_get_none d k = dict_get d k JNull"

text \<open>\<^verbatim>\<open>type(v).__name__\<close>, as it is printed in the message of an AttributeError.\<close>

fun type_name :: "json \<Rightarrow> string" where
  "type_name JNull = ''NoneType''"
| "type_name (JBool _) = ''bool''"
| "type_name (JInt _) = ''int''"
| "type_name (JFloat _) = ''float''"
| "type_name (JStr _) = ''str''"
| "type_name (JList _) = ''list''"
| "type_name (JDict _) = ''dict''"

definition no_attribute :: "json \<Rightarrow> string \<Rightarrow> string" where
  "no_attribute v attr =
     [CHR 0x27] @ type_name v @ [CHR 0x27] @ '' object has no attribute '' @
     [CHR 0x27] @ attr @ [CHR 0x27]"

text \<open>\<^verbatim>\<open>str(n)\<close> of an int, used by \<^verbatim>\<open>f"HTTP {resp.status_code}"\<close>.\<close>

definition digit_chars :: string where
  "digit_chars = ''0123456789''"

fun str_nat :: "nat \<Rightarrow> string" where
  "str_nat n =
     (if n < 10 then [digit_chars ! n]
      else str_nat (n div 10) @ [digit_chars ! (n mod 10)])"

declare str_nat.simps [simp del]

definition str_int :: "int \<Rightarrow> string" where
  "str_int i = (if i < 0 then ''-'' @ str_nat (nat (- i)) else str_nat (nat i))"

section \<open>types.py\<close>

datatype Urgency = LOW | NORMAL | HIGH | CRITICAL

fun Urgency_value :: "Urgency \<Rightarrow> string" where
  "Urgency_value LOW = ''low''"
| "Urgency_value NORMAL = ''normal''"
| "Urgency_value HIGH = ''high''"
| "Urgency_value CRITICAL = ''critical''"

datatype FallbackBehavior = ALLOW | DENY

text \<open>
  The dataclasses. Python does not enforce the annotations, and \<^verbatim>\<open>from_response\<close> stores
  what \<^verbatim>\<open>data.get\<close> returns, so every field holds a \<open>json\<close> value. The field names carry
  the class as a prefix, since the three classes share \<^verbatim>\<open>id\<close> and \<^verbatim>\<open>status\<close>.
\<close>

record ApprovalRequest =
  ar_id :: json
  ar_action :: json
  ar_status :: json
  ar_decision :: json
  ar_params :: json
  ar_context :: json
  ar_urgency :: json
  ar_decided_by :: json
  ar_decided_at :: json
  ar_expires_at :: json
  ar_created_at :: json
  ar_updated_at :: json
  ar_raw :: json

definition ApprovalRequest_from_response :: "dict \<Rightarrow> ApprovalRequest" where
  "ApprovalRequest_from_response data =
     \<lparr> ar_id = dict_get data ''id'' (JStr ''''),
       ar_action = dict_get data ''action'' (JStr ''''),
       ar_status = dict_get data ''status'' (JStr ''pending''),
       ar_decision = dict_get_none data ''decision'',
       ar_params = dict_get data ''params'' (JDict []),
       ar_context = dict_get data ''context'' (JDict []),
       ar_urgency = dict_get data ''urgency'' (JStr ''normal''),
       ar_decided_by = dict_get_none data ''decidedBy'',
       ar_decided_at = dict_get_none data ''decidedAt'',
       ar_expires_at = dict_get_none data ''expiresAt'',
       ar_created_at = dict_get_none data ''createdAt'',
       ar_updated_at = dict_get_none data ''updatedAt'',
       ar_raw = JDict data \<rparr>"

record Policy =
  pol_id :: json
  pol_name :: json
  pol_rules :: json
  pol_priority :: json
  pol_enabled :: json
  pol_raw :: json

definition Policy_from_response :: "dict \<Rightarrow> Policy" where
  "Policy_from_response data =
     \<lparr> pol_id = dict_get data ''id'' (JStr ''''),
       pol_name = dict_get data ''name'' (JStr ''''),
       pol_rules = dict_get data ''rules'' (JList []),
       pol_priority = dict_get data ''priority'' (JInt 0),
       pol_enabled = dict_get data ''enabled'' (JBool True),
       pol_raw = JDict data \<rparr>"

record DecisionResult =
  dr_id :: json
  dr_status :: json
  dr_decision :: json
  dr_is_decided :: bool

definition DecisionResult_from_response :: "dict \<Rightarrow> DecisionResult" where
  "DecisionResult_from_response data =
     (let status = dict_get data ''status'' (JStr ''pending'');
          decision = dict_get_none data ''decision''
      in \<lparr> dr_id = dict_get data ''id'' (JStr ''''),
           dr_status = status,
           dr_decision = decision,
           dr_is_decided =
             (status \<in> {JStr ''approved'', JStr ''denied'', JStr ''expired''}) \<rparr>)"

section \<open>errors.py\<close>

text \<open>
  \<^verbatim>\<open>AgentGateError(message, status_code=None, error_type=None, response_data=None,
  is_connectivity_error=False)\<close>. The message and the error type come from the response
  body unchecked, so they are \<open>json\<close> values.
\<close>

record AgentGateError =
  message :: json
  status_code :: "int option"
  error_type :: json
  response_data :: json
  is_connectivity_error :: bool

text \<open>What an operation of the client can raise to its caller.\<close>

datatype exc =
    AgentGate AgentGateError
  | RuntimeError string
  | AttributeError string
  | TypeError string

section \<open>The transport collaborator\<close>

text \<open>
  \<^verbatim>\<open>self._http.request(method, path, json=json_data)\<close> either returns a response or
  raises. \<^verbatim>\<open>httpx.ConnectError\<close>, \<^verbatim>\<open>httpx.TimeoutException\<close> and \<^verbatim>\<open>httpx.ConnectTimeout\<close>
  are the three classes the client retries; every other \<^verbatim>\<open>Exception\<close> is \<open>OtherException\<close>.
  Each carries \<^verbatim>\<open>str(exc)\<close>. A response has its status code and the result of
  \<^verbatim>\<open>resp.json()\<close>, which raises (\<open>Inl\<close>, with the text of the decoding error) on a body
  that is not JSON.
\<close>

datatype transport_exc =
    ConnectError string
  | TimeoutException string
  | ConnectTimeout string
  | OtherException string

fun str_exc :: "transport_exc \<Rightarrow> string" where
  "str_exc (ConnectError m) = m"
| "str_exc (TimeoutException m) = m"
| "str_exc (ConnectTimeout m) = m"
| "str_exc (OtherException m) = m"

fun is_connect_or_timeout :: "transport_exc \<Rightarrow> bool" where
  "is_connect_or_timeout (OtherException _) = False"
| "is_connect_or_timeout _ = True"

record response =
  resp_status_code :: int
  resp_json :: "string + json"

datatype outcome = Returns response | Raises transport_exc

record http_req =
  req_method :: string
  req_path :: string
  req_json :: "json option"

text \<open>
  The transport is the environment: the outcome of its \<open>k\<close>-th call (from 0) for a given
  request. The state that the client threads through counts the calls made and logs the
  backoff sleeps, in seconds.
\<close>

type_synonym transport = "nat \<Rightarrow> http_req \<Rightarrow> outcome"

record io =
  calls :: nat
  slept :: "rat list"

definition io0 :: io where
  "io0 = \<lparr> calls = 0, slept = [] \<rparr>"

definition http_request :: "transport \<Rightarrow> http_req \<Rightarrow> io \<Rightarrow> outcome \<times> io" where
  "http_request t rq s = (t (calls s) rq, s\<lparr> calls := Suc (calls s) \<rparr>)"

definition sleep :: "rat \<Rightarrow> io \<Rightarrow> io" where
  "sleep d s = s\<lparr> slept := slept s @ [d] \<rparr>"

section \<open>client.py\<close>

definition RETRY_BACKOFFS :: "rat list" where
  "RETRY_BACKOFFS = [1 / 2, 1, 2]"

definition RETRYABLE_STATUS :: "int set" where
  "RETRYABLE_STATUS = {500, 502, 503, 504}"

definition CLIENT_ERROR_STATUS :: "int set" where
  "CLIENT_ERROR_STATUS = {400, 401, 403}"

text \<open>
  The client after \<^verbatim>\<open>__init__\<close>: the two attributes that the request pipeline reads.
  \<^verbatim>\<open>max_retries\<close> is a Python int and may be negative.
\<close>

record client =
  fallback :: FallbackBehavior
  max_retries :: int

text \<open>\<^verbatim>\<open>xs[:n]\<close>: a negative \<open>n\<close> counts from the end.\<close>

definition slice_to :: "'a list \<Rightarrow> int \<Rightarrow> 'a list" where
  "slice_to xs n = (if n < 0 then take (nat (int (length xs) + n)) xs else take (nat n) xs)"

definition backoffs_of :: "client \<Rightarrow> rat list" where
  "backoffs_of c = slice_to RETRY_BACKOFFS (max_retries c)"

text \<open>
  \<^verbatim>\<open>error_info = data.get("error", {}) if isinstance(data, dict) else {}\<close> followed by
  the construction of the error: \<^verbatim>\<open>error_info.get\<close> raises AttributeError when the
  \<^verbatim>\<open>"error"\<close> entry is not a dict.
\<close>

definition error_info_of :: "json \<Rightarrow> json" where
  "error_info_of data = (case data of JDict d \<Rightarrow> dict_get d ''error'' (JDict []) | _ \<Rightarrow> JDict [])"

definition http_error :: "int \<Rightarrow> json \<Rightarrow> string + AgentGateError" where
  "http_error status data =
     (case error_info_of data of
        JDict ei \<Rightarrow>
          Inr \<lparr> message = dict_get ei ''message'' (JStr (''HTTP '' @ str_int status)),
                status_code = Some status,
                error_type = dict_get_none ei ''type'',
                response_data = data,
                is_connectivity_error = False \<rparr>
      | v \<Rightarrow> Inl (no_attribute v ''get''))"

definition connectivity_error :: "string \<Rightarrow> exc" where
  "connectivity_error msg =
     AgentGate \<lparr> message = JStr msg, status_code = None, error_type = JNull,
                 response_data = JNull, is_connectivity_error = True \<rparr>"

text \<open>The handler \<^verbatim>\<open>except Exception as exc\<close> of \<^verbatim>\<open>_request\<close>.\<close>

definition unexpected :: "string \<Rightarrow> exc" where
  "unexpected e = connectivity_error (''Unexpected error: '' @ e)"

text \<open>
  The statements of one attempt that follow a response: \<open>None\<close> is \<^verbatim>\<open>continue\<close> (after
  the sleep), \<open>Some\<close> is a return or a raise that leaves \<^verbatim>\<open>_request\<close>.
\<close>

definition raise_http_error :: "int \<Rightarrow> json \<Rightarrow> exc + json" where
  "raise_http_error status data =
     (case http_error status data of
        Inl e \<Rightarrow> Inl (unexpected e)
      | Inr err \<Rightarrow> Inl (AgentGate err))"

definition handle_response :: "rat list \<Rightarrow> nat \<Rightarrow> response \<Rightarrow> (exc + json) option" where
  "handle_response backoffs attempt resp =
     (if resp_status_code resp \<in> CLIENT_ERROR_STATUS then
        (case resp_json resp of
           Inl e \<Rightarrow> Some (Inl (unexpected e))
         | Inr data \<Rightarrow> Some (raise_http_error (resp_status_code resp) data))
      else if resp_status_code resp \<in> RETRYABLE_STATUS \<and> attempt < length backoffs then None
      else
        (case resp_json resp of
           Inl e \<Rightarrow> Some (Inl (unexpected e))
         | Inr data \<Rightarrow>
             if resp_status_code resp \<ge> 400
             then Some (raise_http_error (resp_status_code resp) data)
             else Some (Inr data)))"

text \<open>The except clauses of one attempt, for an exception of the transport.\<close>

definition handle_exception :: "rat list \<Rightarrow> nat \<Rightarrow> transport_exc \<Rightarrow> (exc + json) option" where
  "handle_exception backoffs attempt e =
     (if is_connect_or_timeout e then
        (if attempt < length backoffs then None
         else Some (Inl (connectivity_error (''Connection failed: '' @ str_exc e))))
      else Some (Inl (unexpected (str_exc e))))"

text \<open>
  \<^verbatim>\<open>for attempt in range(1 + len(backoffs))\<close>, with \<^verbatim>\<open>last_exc\<close>, and the two statements
  after the loop.
\<close>

function request_loop ::
  "rat list \<Rightarrow> transport \<Rightarrow> http_req \<Rightarrow> nat \<Rightarrow> transport_exc option \<Rightarrow> io \<Rightarrow> (exc + json) \<times> io"
where
  "request_loop backoffs t rq attempt last_exc s =
     (if attempt < 1 + length backoffs then
        (case fst (http_request t rq s) of
           Returns resp \<Rightarrow>
             (case handle_response backoffs attempt resp of
                Some r \<Rightarrow> (r, snd (http_request t rq s))
              | None \<Rightarrow>
                  request_loop backoffs t rq (Suc attempt) last_exc
                    (sleep (backoffs ! attempt) (snd (http_request t rq s))))
         | Raises e \<Rightarrow>
             (case handle_exception backoffs attempt e of
                Some r \<Rightarrow> (r, snd (http_request t rq s))
              | None \<Rightarrow>
                  request_loop backoffs t rq (Suc attempt) (Some e)
                    (sleep (backoffs ! attempt) (snd (http_request t rq s)))))
      else
        (case last_exc of
           Some e \<Rightarrow>
             (Inl (connectivity_error (''Connection failed after retries: '' @ str_exc e)), s)
         | None \<Rightarrow> (Inl (RuntimeError ''Retry loop exhausted unexpectedly''), s)))"
  by pat_completeness auto
termination
  by (relation "measure (\<lambda>(backoffs, t, rq, attempt, last_exc, s). 1 + length backoffs - attempt)")
     auto

declare request_loop.simps [simp del]

text \<open>\<^verbatim>\<open>AgentGateClient._request\<close> (a name cannot start with an underscore here).\<close>

definition request :: "client \<Rightarrow> transport \<Rightarrow> http_req \<Rightarrow> io \<Rightarrow> (exc + json) \<times> io" where
  "request c t rq s = request_loop (backoffs_of c) t rq 0 None s"

text \<open>
  Truthiness of the optional arguments: \<^verbatim>\<open>if params:\<close> holds for a non-empty dict,
  \<^verbatim>\<open>if expires_at:\<close> for a non-empty string; \<^verbatim>\<open>params or {}\<close> is the dict when it is
  non-empty and the fresh empty dict otherwise.
\<close>

definition truthy :: "'a list option \<Rightarrow> bool" where
  "truthy x = (case x of None \<Rightarrow> False | Some xs \<Rightarrow> xs \<noteq> [])"

definition or_empty :: "dict option \<Rightarrow> json" where
  "or_empty x = (case x of None \<Rightarrow> JDict [] | Some d \<Rightarrow> if truthy x then JDict d else JDict [])"

text \<open>\<^verbatim>\<open>if x: body[key] = x\<close>, as the entries it adds to the body.\<close>

definition entry_if :: "string \<Rightarrow> ('a list \<Rightarrow> json) \<Rightarrow> 'a list option \<Rightarrow> dict" where
  "entry_if key mk x = (case x of None \<Rightarrow> [] | Some v \<Rightarrow> if truthy x then [(key, mk v)] else [])"

definition urgency_str :: "Urgency + string \<Rightarrow> string" where
  "urgency_str u = (case u of Inl e \<Rightarrow> Urgency_value e | Inr s \<Rightarrow> s)"

definition approval_body ::
  "string \<Rightarrow> dict option \<Rightarrow> dict option \<Rightarrow> Urgency + string \<Rightarrow> string option \<Rightarrow> dict" where
  "approval_body action params context urgency expires_at =
     [(''action'', JStr action)]
     @ entry_if ''params'' JDict params
     @ entry_if ''context'' JDict context
     @ [(''urgency'', JStr (urgency_str urgency))]
     @ entry_if ''expiresAt'' JStr expires_at"

text \<open>
  A decoder applied to what \<^verbatim>\<open>_request\<close> returned: the first \<^verbatim>\<open>data.get\<close> raises
  AttributeError when the value is not a dict.
\<close>

definition decode_with :: "(dict \<Rightarrow> 'a) \<Rightarrow> json \<Rightarrow> exc + 'a" where
  "decode_with f data =
     (case data of JDict d \<Rightarrow> Inr (f d) | v \<Rightarrow> Inl (AttributeError (no_attribute v ''get'')))"

definition request_approval ::
  "client \<Rightarrow> transport \<Rightarrow> string \<Rightarrow> dict option \<Rightarrow> dict option \<Rightarrow> Urgency + string \<Rightarrow>
   string option \<Rightarrow> io \<Rightarrow> (exc + ApprovalRequest) \<times> io" where
  "request_approval c t action params context urgency expires_at s =
     (case request c t
             \<lparr> req_method = ''POST'', req_path = ''/api/requests'',
               req_json = Some (JDict (approval_body action params context urgency expires_at)) \<rparr> s
      of (Inl e, s') \<Rightarrow> (Inl e, s')
       | (Inr data, s') \<Rightarrow> (decode_with ApprovalRequest_from_response data, s'))"

definition check_decision ::
  "client \<Rightarrow> transport \<Rightarrow> string \<Rightarrow> io \<Rightarrow> (exc + DecisionResult) \<times> io" where
  "check_decision c t request_id s =
     (case request c t
             \<lparr> req_method = ''GET'', req_path = ''/api/requests/'' @ request_id,
               req_json = None \<rparr> s
      of (Inl e, s') \<Rightarrow> (Inl e, s')
       | (Inr data, s') \<Rightarrow> (decode_with DecisionResult_from_response data, s'))"

text \<open>
  \<^verbatim>\<open>[Policy.from_response(p) for p in xs]\<close>: the comprehension stops at the first element
  that is not a dict. Iterating a dict yields its keys, a str its characters, and the
  remaining values are not iterable.
\<close>

fun policies_of :: "json list \<Rightarrow> exc + Policy list" where
  "policies_of [] = Inr []"
| "policies_of (p # ps) =
     (case decode_with Policy_from_response p of
        Inl e \<Rightarrow> Inl e
      | Inr pol \<Rightarrow> (case policies_of ps of Inl e \<Rightarrow> Inl e | Inr pols \<Rightarrow> Inr (pol # pols)))"

definition not_iterable :: "json \<Rightarrow> exc" where
  "not_iterable v =
     TypeError ([CHR 0x27] @ type_name v @ [CHR 0x27] @ '' object is not iterable'')"

definition iterate :: "json \<Rightarrow> exc + json list" where
  "iterate v =
     (case v of
        JList xs \<Rightarrow> Inr xs
      | JDict d \<Rightarrow> Inr (map (\<lambda>kv. JStr (fst kv)) d)
      | JStr cs \<Rightarrow> Inr (map (\<lambda>ch. JStr [ch]) cs)
      | _ \<Rightarrow> Inl (not_iterable v))"

text \<open>The statements of \<^verbatim>\<open>list_policies\<close> after \<^verbatim>\<open>data = await self._request(...)\<close>.\<close>

definition decode_policies :: "json \<Rightarrow> exc + Policy list" where
  "decode_policies data =
     (case data of
        JList xs \<Rightarrow> policies_of xs
      | JDict d \<Rightarrow>
          (case iterate (dict_get d ''policies'' (dict_get d ''data'' (JList []))) of
             Inl e \<Rightarrow> Inl e
           | Inr xs \<Rightarrow> policies_of xs)
      | v \<Rightarrow> Inl (AttributeError (no_attribute v ''get'')))"

definition list_policies :: "client \<Rightarrow> transport \<Rightarrow> io \<Rightarrow> (exc + Policy list) \<times> io" where
  "list_policies c t s =
     (case request c t
             \<lparr> req_method = ''GET'', req_path = ''/api/policies'', req_json = None \<rparr> s
      of (Inl e, s') \<Rightarrow> (Inl e, s')
       | (Inr data, s') \<Rightarrow> (decode_policies data, s'))"

text \<open>\<^verbatim>\<open>AgentGateClient._fallback_request\<close>; the fields not passed keep the dataclass defaults.\<close>

definition fallback_request :: "client \<Rightarrow> string \<Rightarrow> dict option \<Rightarrow> dict option \<Rightarrow> ApprovalRequest" where
  "fallback_request c action params context =
     (let status = (if fallback c = ALLOW then ''approved'' else ''denied'');
          decision = (if fallback c = ALLOW then ''approved'' else ''denied'')
      in \<lparr> ar_id = JStr ''fallback'',
           ar_action = JStr action,
           ar_status = JStr status,
           ar_decision = JStr decision,
           ar_params = or_empty params,
           ar_context = or_empty context,
           ar_urgency = JStr ''normal'',
           ar_decided_by = JNull,
           ar_decided_at = JNull,
           ar_expires_at = JNull,
           ar_created_at = JNull,
           ar_updated_at = JNull,
           ar_raw = JDict [(''_fallback'', JBool True)] \<rparr>)"

definition request_approval_safe ::
  "client \<Rightarrow> transport \<Rightarrow> string \<Rightarrow> dict option \<Rightarrow> dict option \<Rightarrow> Urgency + string \<Rightarrow>
   string option \<Rightarrow> io \<Rightarrow> (exc + ApprovalRequest) \<times> io" where
  "request_approval_safe c t action params context urgency expires_at s =
     (case request_approval c t action params context urgency expires_at s of
        (Inl (AgentGate err), s') \<Rightarrow>
          if is_connectivity_error err
          then (Inr (fallback_request c action params context), s')
          else (Inl (AgentGate err), s')
      | r \<Rightarrow> r)"

section \<open>Notions used to state the properties\<close>

text \<open>
  An outcome that the client retries while retries remain: a status of the retryable
  set, or a connection or timeout error.
\<close>

fun retryable_outcome :: "outcome \<Rightarrow> bool" where
  "retryable_outcome (Returns resp) = (resp_status_code resp \<in> RETRYABLE_STATUS)"
| "retryable_outcome (Raises e) = is_connect_or_timeout e"

text \<open>
  Whether the last call of the transport made so far returned a response. After
  \<open>request\<close> has raised, that call is the one of the attempt that raised.
\<close>

definition response_obtained :: "transport \<Rightarrow> http_req \<Rightarrow> io \<Rightarrow> bool" where
  "response_obtained t rq s' = (case t (calls s' - 1) rq of Returns _ \<Rightarrow> True | Raises _ \<Rightarrow> False)"

text \<open>
  A transport that plays a script: the listed outcomes in order, one per call, and then
  the same outcome for ever, whatever the request.
\<close>

definition scripted :: "outcome list \<Rightarrow> outcome \<Rightarrow> transport" where
  "scripted outs rest = (\<lambda>k rq. if k < length outs then outs ! k else rest)"

section \<open>The decoders\<close>

lemma dict_get_absent: "map_of d k = None \<Longrightarrow> dict_get d k dflt = dflt"
  by (simp add: dict_get_def)

lemma dict_get_present: "map_of d k = Some v \<Longrightarrow> dict_get d k dflt = v"
  by (simp add: dict_get_def)

text \<open>
  C7. The three decoders are total functions of a dict, so they cannot fail on it. For
  every dict in which an optional key is missing, the decoded record holds the documented
  default: status \<^verbatim>\<open>"pending"\<close> (and then \<^verbatim>\<open>is_decided\<close> is false), urgency \<^verbatim>\<open>"normal"\<close>, params and
  context the empty dict, rules the empty list, enabled true, priority 0, and \<^verbatim>\<open>None\<close> for
  the decision, the decider and the four timestamps.
\<close>

theorem decoders_defaults_for_missing:
  fixes d :: dict
  shows
   "(map_of d ''status'' = None \<longrightarrow>
       ar_status (ApprovalRequest_from_response d) = JStr ''pending'' \<and>
       dr_status (DecisionResult_from_response d) = JStr ''pending'' \<and>
       \<not> dr_is_decided (DecisionResult_from_response d)) \<and>
    (map_of d ''urgency'' = None \<longrightarrow>
       ar_urgency (ApprovalRequest_from_response d) = JStr ''normal'') \<and>
    (map_of d ''params'' = None \<longrightarrow> ar_params (ApprovalRequest_from_response d) = JDict []) \<and>
    (map_of d ''context'' = None \<longrightarrow> ar_context (ApprovalRequest_from_response d) = JDict []) \<and>
    (map_of d ''rules'' = None \<longrightarrow> pol_rules (Policy_from_response d) = JList []) \<and>
    (map_of d ''enabled'' = None \<longrightarrow> pol_enabled (Policy_from_response d) = JBool True) \<and>
    (map_of d ''priority'' = None \<longrightarrow> pol_priority (Policy_from_response d) = JInt 0) \<and>
    (map_of d ''decision'' = None \<longrightarrow>
       ar_decision (ApprovalRequest_from_response d) = JNull \<and>
       dr_decision (DecisionResult_from_response d) = JNull) \<and>
    (map_of d ''decidedBy'' = None \<longrightarrow> ar_decided_by (ApprovalRequest_from_response d) = JNull) \<and>
    (map_of d ''decidedAt'' = None \<longrightarrow> ar_decided_at (ApprovalRequest_from_response d) = JNull) \<and>
    (map_of d ''expiresAt'' = None \<longrightarrow> ar_expires_at (ApprovalRequest_from_response d) = JNull) \<and>
    (map_of d ''createdAt'' = None \<longrightarrow> ar_created_at (ApprovalRequest_from_response d) = JNull) \<and>
    (map_of d ''updatedAt'' = None \<longrightarrow> ar_updated_at (ApprovalRequest_from_response d) = JNull)"
  by (simp add: ApprovalRequest_from_response_def Policy_from_response_def
        DecisionResult_from_response_def dict_get_none_def dict_get_absent Let_def)

theorem decoders_defaults_for_missing_witness:
  "ApprovalRequest_from_response [(''id'', JStr ''x''), (''action'', JStr ''y'')] =
     \<lparr>ar_id = JStr ''x'', ar_action = JStr ''y'', ar_status = JStr ''pending'',
      ar_decision = JNull, ar_params = JDict [], ar_context = JDict [],
      ar_urgency = JStr ''normal'', ar_decided_by = JNull, ar_decided_at = JNull,
      ar_expires_at = JNull, ar_created_at = JNull, ar_updated_at = JNull,
      ar_raw = JDict [(''id'', JStr ''x''), (''action'', JStr ''y'')]\<rparr> \<and>
   Policy_from_response [(''id'', JStr ''x''), (''action'', JStr ''y'')] =
     \<lparr>pol_id = JStr ''x'', pol_name = JStr '''', pol_rules = JList [], pol_priority = JInt 0,
      pol_enabled = JBool True, pol_raw = JDict [(''id'', JStr ''x''), (''action'', JStr ''y'')]\<rparr> \<and>
   DecisionResult_from_response [(''id'', JStr ''x''), (''action'', JStr ''y'')] =
     \<lparr>dr_id = JStr ''x'', dr_status = JStr ''pending'', dr_decision = JNull,
      dr_is_decided = False\<rparr>"
  using decoders_defaults_for_missing [of "[(''id'', JStr ''x''), (''action'', JStr ''y'')]"]
  by (simp add: ApprovalRequest_from_response_def Policy_from_response_def
        DecisionResult_from_response_def dict_get_def dict_get_none_def)

text \<open>
  C10. The default stands in for an absent key only. For every dict that binds a key to
  null, the decoded field is \<^verbatim>\<open>None\<close>: this holds for each field any of the three decoders
  reads, and a null status gives \<^verbatim>\<open>is_decided\<close> false.
\<close>

theorem decoders_keep_null:
  fixes d :: dict
  shows
   "(map_of d ''status'' = Some JNull \<longrightarrow>
       ar_status (ApprovalRequest_from_response d) = JNull \<and>
       dr_status (DecisionResult_from_response d) = JNull \<and>
       \<not> dr_is_decided (DecisionResult_from_response d)) \<and>
    (map_of d ''id'' = Some JNull \<longrightarrow>
       ar_id (ApprovalRequest_from_response d) = JNull \<and>
       pol_id (Policy_from_response d) = JNull \<and>
       dr_id (DecisionResult_from_response d) = JNull) \<and>
    (map_of d ''action'' = Some JNull \<longrightarrow> ar_action (ApprovalRequest_from_response d) = JNull) \<and>
    (map_of d ''name'' = Some JNull \<longrightarrow> pol_name (Policy_from_response d) = JNull) \<and>
    (map_of d ''urgency'' = Some JNull \<longrightarrow> ar_urgency (ApprovalRequest_from_response d) = JNull) \<and>
    (map_of d ''params'' = Some JNull \<longrightarrow> ar_params (ApprovalRequest_from_response d) = JNull) \<and>
    (map_of d ''context'' = Some JNull \<longrightarrow> ar_context (ApprovalRequest_from_response d) = JNull) \<and>
    (map_of d ''rules'' = Some JNull \<longrightarrow> pol_rules (Policy_from_response d) = JNull) \<and>
    (map_of d ''enabled'' = Some JNull \<longrightarrow> pol_enabled (Policy_from_response d) = JNull) \<and>
    (map_of d ''priority'' = Some JNull \<longrightarrow> pol_priority (Policy_from_response d) = JNull) \<and>
    (map_of d ''decision'' = Some JNull \<longrightarrow>
       ar_decision (ApprovalRequest_from_response d) = JNull \<and>
       dr_decision (DecisionResult_from_response d) = JNull) \<and>
    (map_of d ''decidedBy'' = Some JNull \<longrightarrow> ar_decided_by (ApprovalRequest_from_response d) = JNull) \<and>
    (map_of d ''decidedAt'' = Some JNull \<longrightarrow> ar_decided_at (ApprovalRequest_from_response d) = JNull) \<and>
    (map_of d ''expiresAt'' = Some JNull \<longrightarrow> ar_expires_at (ApprovalRequest_from_response d) = JNull) \<and>
    (map_of d ''createdAt'' = Some JNull \<longrightarrow> ar_created_at (ApprovalRequest_from_response d) = JNull) \<and>
    (map_of d ''updatedAt'' = Some JNull \<longrightarrow> ar_updated_at (ApprovalRequest_from_response d) = JNull)"
  by (simp add: ApprovalRequest_from_response_def Policy_from_response_def
        DecisionResult_from_response_def dict_get_none_def dict_get_present Let_def)

theorem decoders_keep_null_witness:
  "(let d = [(''id'', JNull), (''action'', JNull), (''name'', JNull), (''status'', JNull),
             (''decision'', JNull), (''params'', JNull), (''context'', JNull),
             (''urgency'', JNull), (''rules'', JNull), (''priority'', JNull),
             (''enabled'', JNull), (''decidedBy'', JNull), (''decidedAt'', JNull),
             (''expiresAt'', JNull), (''createdAt'', JNull), (''updatedAt'', JNull)]
    in ApprovalRequest_from_response d =
         \<lparr>ar_id = JNull, ar_action = JNull, ar_status = JNull, ar_decision = JNull,
          ar_params = JNull, ar_context = JNull, ar_urgency = JNull, ar_decided_by = JNull,
          ar_decided_at = JNull, ar_expires_at = JNull, ar_created_at = JNull,
          ar_updated_at = JNull, ar_raw = JDict d\<rparr> \<and>
       Policy_from_response d =
         \<lparr>pol_id = JNull, pol_name = JNull, pol_rules = JNull, pol_priority = JNull,
          pol_enabled = JNull, pol_raw = JDict d\<rparr> \<and>
       DecisionResult_from_response d =
         \<lparr>dr_id = JNull, dr_status = JNull, dr_decision = JNull, dr_is_decided = False\<rparr>) \<and>
   ar_params (ApprovalRequest_from_response
      [(''id'', JStr ''x''), (''action'', JStr ''y''), (''params'', JNull)]) = JNull \<and>
   ar_params (ApprovalRequest_from_response
      [(''id'', JStr ''x''), (''action'', JStr ''y''), (''params'', JNull)]) \<noteq> JDict [] \<and>
   dr_status (DecisionResult_from_response [(''status'', JNull)]) = JNull \<and>
   dr_status (DecisionResult_from_response [(''status'', JNull)]) \<noteq> JStr ''pending'' \<and>
   \<not> dr_is_decided (DecisionResult_from_response [(''status'', JNull)])"
proof -
  let ?d = "[(''id'', JNull), (''action'', JNull), (''name'', JNull), (''status'', JNull),
             (''decision'', JNull), (''params'', JNull), (''context'', JNull),
             (''urgency'', JNull), (''rules'', JNull), (''priority'', JNull),
             (''enabled'', JNull), (''decidedBy'', JNull), (''decidedAt'', JNull),
             (''expiresAt'', JNull), (''createdAt'', JNull), (''updatedAt'', JNull)]"
  have raws: "ar_raw (ApprovalRequest_from_response ?d) = JDict ?d"
    "pol_raw (Policy_from_response ?d) = JDict ?d"
    by (simp_all add: ApprovalRequest_from_response_def Policy_from_response_def)
  have "ApprovalRequest_from_response ?d =
         \<lparr>ar_id = JNull, ar_action = JNull, ar_status = JNull, ar_decision = JNull,
          ar_params = JNull, ar_context = JNull, ar_urgency = JNull, ar_decided_by = JNull,
          ar_decided_at = JNull, ar_expires_at = JNull, ar_created_at = JNull,
          ar_updated_at = JNull, ar_raw = JDict ?d\<rparr>"
    using decoders_keep_null [of ?d] raws
    by (cases "ApprovalRequest_from_response ?d") simp
  moreover have "Policy_from_response ?d =
         \<lparr>pol_id = JNull, pol_name = JNull, pol_rules = JNull, pol_priority = JNull,
          pol_enabled = JNull, pol_raw = JDict ?d\<rparr>"
    using decoders_keep_null [of ?d] raws
    by (cases "Policy_from_response ?d") simp
  moreover have "DecisionResult_from_response ?d =
         \<lparr>dr_id = JNull, dr_status = JNull, dr_decision = JNull, dr_is_decided = False\<rparr>"
    using decoders_keep_null [of ?d]
    by (cases "DecisionResult_from_response ?d") simp
  ultimately show ?thesis
    using decoders_keep_null [of "[(''id'', JStr ''x''), (''action'', JStr ''y''), (''params'', JNull)]"]
        decoders_keep_null [of "[(''status'', JNull)]"]
    by (simp add: Let_def)
qed

section \<open>One attempt of the retry loop\<close>

lemma handle_response_None_iff:
  "handle_response backoffs attempt resp = None \<longleftrightarrow>
     resp_status_code resp \<in> RETRYABLE_STATUS \<and> attempt < length backoffs"
  by (auto simp: handle_response_def CLIENT_ERROR_STATUS_def RETRYABLE_STATUS_def
           split: sum.splits)

lemma handle_exception_None_iff:
  "handle_exception backoffs attempt e = None \<longleftrightarrow>
     is_connect_or_timeout e \<and> attempt < length backoffs"
  by (simp add: handle_exception_def)

lemma loop_returns:
  assumes "attempt \<le> length backoffs" and "t (calls s) rq = Returns resp"
    and "handle_response backoffs attempt resp = Some r"
  shows "request_loop backoffs t rq attempt last_exc s = (r, s\<lparr>calls := Suc (calls s)\<rparr>)"
  using assms by (subst request_loop.simps) (simp add: http_request_def)

lemma loop_raises:
  assumes "attempt \<le> length backoffs" and "t (calls s) rq = Raises e"
    and "handle_exception backoffs attempt e = Some r"
  shows "request_loop backoffs t rq attempt last_exc s = (r, s\<lparr>calls := Suc (calls s)\<rparr>)"
  using assms by (subst request_loop.simps) (simp add: http_request_def)

lemma loop_retries_status:
  assumes "attempt < length backoffs" and "t (calls s) rq = Returns resp"
    and "resp_status_code resp \<in> RETRYABLE_STATUS"
  shows "request_loop backoffs t rq attempt last_exc s =
         request_loop backoffs t rq (Suc attempt) last_exc
           (sleep (backoffs ! attempt) (s\<lparr>calls := Suc (calls s)\<rparr>))"
proof -
  have "handle_response backoffs attempt resp = None"
    using assms by (simp add: handle_response_None_iff)
  then show ?thesis
    using assms by (subst request_loop.simps) (simp add: http_request_def)
qed

lemma loop_retries_exception:
  assumes "attempt < length backoffs" and "t (calls s) rq = Raises e"
    and "is_connect_or_timeout e"
  shows "request_loop backoffs t rq attempt last_exc s =
         request_loop backoffs t rq (Suc attempt) (Some e)
           (sleep (backoffs ! attempt) (s\<lparr>calls := Suc (calls s)\<rparr>))"
proof -
  have "handle_exception backoffs attempt e = None"
    using assms by (simp add: handle_exception_None_iff)
  then show ?thesis
    using assms by (subst request_loop.simps) (simp add: http_request_def)
qed

lemma backoffs_of_nonneg:
  "0 \<le> max_retries c \<Longrightarrow> backoffs_of c = take (nat (max_retries c)) [1 / 2, 1, 2]"
  by (simp add: backoffs_of_def slice_to_def RETRY_BACKOFFS_def)

lemma length_backoffs_of:
  "0 \<le> max_retries c \<Longrightarrow> length (backoffs_of c) = min (nat (max_retries c)) 3"
  by (simp add: backoffs_of_nonneg)

lemma success_response:
  assumes "resp_status_code resp < 400" and "resp_json resp = Inr body"
  shows "handle_response backoffs attempt resp = Some (Inr body)"
  using assms by (auto simp: handle_response_def CLIENT_ERROR_STATUS_def RETRYABLE_STATUS_def)

lemma first_attempt_success:
  assumes "t (calls s) rq = Returns resp" and "resp_status_code resp < 400"
    and "resp_json resp = Inr body"
  shows "request c t rq s = (Inr body, s\<lparr>calls := Suc (calls s)\<rparr>)"
proof -
  have "handle_response (backoffs_of c) 0 resp = Some (Inr body)"
    using assms(2,3) by (rule success_response)
  from loop_returns [where t = t and s = s and rq = rq, OF _ assms(1) this]
  show ?thesis by (simp add: request_def)
qed

lemma policies_of_dicts: "policies_of (map JDict ps) = Inr (map Policy_from_response ps)"
  by (induction ps) (simp_all add: decode_with_def)

section \<open>Listing policies\<close>

text \<open>
  C8. For every list \<open>ps\<close> of policy objects, when the policy endpoint answers with a
  success status and the body is the bare array \<open>ps\<close>, or \<^verbatim>\<open>{"policies": ps}\<close>, or
  \<^verbatim>\<open>{"data": ps}\<close>, \<open>list_policies\<close> returns the same sequence in the three cases: elementwise
  \<open>Policy_from_response\<close> of \<open>ps\<close>, after one call of the transport.
\<close>

theorem list_policies_shapes:
  assumes "t (calls s) \<lparr>req_method = ''GET'', req_path = ''/api/policies'', req_json = None\<rparr>
             = Returns resp"
    and "resp_status_code resp < 400"
    and "resp_json resp = Inr (JList (map JDict ps)) \<or>
         resp_json resp = Inr (JDict [(''policies'', JList (map JDict ps))]) \<or>
         resp_json resp = Inr (JDict [(''data'', JList (map JDict ps))])"
  shows "list_policies c t s = (Inr (map Policy_from_response ps), s\<lparr>calls := Suc (calls s)\<rparr>)"
proof -
  note pols = policies_of_dicts [of ps]
  obtain body where body: "resp_json resp = Inr body"
    and dec: "decode_policies body = Inr (map Policy_from_response ps)"
    using assms(3) by (auto simp: decode_policies_def iterate_def dict_get_def pols)
  from first_attempt_success [where t = t and s = s, OF assms(1,2) body] dec
  show ?thesis by (simp add: list_policies_def)
qed

theorem list_policies_shapes_witness:
  "list_policies \<lparr>fallback = DENY, max_retries = 3\<rparr>
     (scripted [] (Returns \<lparr>resp_status_code = 200, resp_json = Inr (JList (map JDict
        [[(''id'', JStr ''pol_1''), (''name'', JStr ''Auto-approve reads'')],
         [(''id'', JStr ''pol_2''), (''priority'', JInt 2)]]))\<rparr>)) io0
   = (Inr (map Policy_from_response
        [[(''id'', JStr ''pol_1''), (''name'', JStr ''Auto-approve reads'')],
         [(''id'', JStr ''pol_2''), (''priority'', JInt 2)]]), io0\<lparr>calls := Suc (calls io0)\<rparr>) \<and>
   list_policies \<lparr>fallback = DENY, max_retries = 3\<rparr>
     (scripted [] (Returns \<lparr>resp_status_code = 200, resp_json = Inr (JDict [(''policies'', JList (map JDict
        [[(''id'', JStr ''pol_1''), (''name'', JStr ''Auto-approve reads'')],
         [(''id'', JStr ''pol_2''), (''priority'', JInt 2)]]))])\<rparr>)) io0
   = (Inr (map Policy_from_response
        [[(''id'', JStr ''pol_1''), (''name'', JStr ''Auto-approve reads'')],
         [(''id'', JStr ''pol_2''), (''priority'', JInt 2)]]), io0\<lparr>calls := Suc (calls io0)\<rparr>) \<and>
   list_policies \<lparr>fallback = DENY, max_retries = 3\<rparr>
     (scripted [] (Returns \<lparr>resp_status_code = 200, resp_json = Inr (JDict [(''data'', JList (map JDict
        [[(''id'', JStr ''pol_1''), (''name'', JStr ''Auto-approve reads'')],
         [(''id'', JStr ''pol_2''), (''priority'', JInt 2)]]))])\<rparr>)) io0
   = (Inr (map Policy_from_response
        [[(''id'', JStr ''pol_1''), (''name'', JStr ''Auto-approve reads'')],
         [(''id'', JStr ''pol_2''), (''priority'', JInt 2)]]), io0\<lparr>calls := Suc (calls io0)\<rparr>)"
proof -
  let ?ps = "[[(''id'', JStr ''pol_1''), (''name'', JStr ''Auto-approve reads'')],
              [(''id'', JStr ''pol_2''), (''priority'', JInt 2)]]"
  let ?c = "\<lparr>fallback = DENY, max_retries = 3\<rparr>"
  have "list_policies ?c (scripted [] (Returns \<lparr>resp_status_code = 200, resp_json = Inr body\<rparr>)) io0
          = (Inr (map Policy_from_response ?ps), io0\<lparr>calls := Suc (calls io0)\<rparr>)"
    if "body = JList (map JDict ?ps) \<or> body = JDict [(''policies'', JList (map JDict ?ps))] \<or>
        body = JDict [(''data'', JList (map JDict ?ps))]" for body
    using that
      list_policies_shapes [of "scripted [] (Returns \<lparr>resp_status_code = 200, resp_json = Inr body\<rparr>)"
        io0 "\<lparr>resp_status_code = 200, resp_json = Inr body\<rparr>" ?ps ?c]
    by (simp add: scripted_def)
  then show ?thesis by simp
qed

section \<open>Retrying\<close>

text \<open>
  C3. For every client with \<^verbatim>\<open>max_retries\<close> at least 1, when the transport yields one
  retryable failure (a status of 500, 502, 503 or 504, or a connection or timeout error)
  and then a response with a status below 400 whose body decodes to \<open>body\<close>, \<open>request\<close>
  returns \<open>body\<close>, the transport has been called exactly twice, and the client has slept
  once, for half a second.
\<close>

theorem retry_once_then_success:
  assumes "1 \<le> max_retries c"
    and "retryable_outcome (t (calls s) rq)"
    and "t (Suc (calls s)) rq = Returns resp"
    and "resp_status_code resp < 400"
    and "resp_json resp = Inr body"
  shows "request c t rq s = (Inr body, \<lparr>calls = calls s + 2, slept = slept s @ [1 / 2]\<rparr>)"
proof -
  let ?b = "backoffs_of c"
  have len: "0 < length ?b" and first: "?b ! 0 = 1 / 2"
    using assms(1) by (simp_all add: backoffs_of_nonneg min_def nth_take)
  let ?s1 = "sleep (?b ! 0) (s\<lparr>calls := Suc (calls s)\<rparr>)"
  have calls1: "calls ?s1 = Suc (calls s)" by (simp add: sleep_def)
  obtain le' where one: "request_loop ?b t rq 0 None s = request_loop ?b t rq (Suc 0) le' ?s1"
  proof (cases "t (calls s) rq")
    case (Returns r)
    then have "resp_status_code r \<in> RETRYABLE_STATUS" using assms(2) by simp
    from loop_retries_status [where t = t and s = s and rq = rq, OF len Returns this] that show ?thesis by blast
  next
    case (Raises e)
    then have "is_connect_or_timeout e" using assms(2) by simp
    from loop_retries_exception [where t = t and s = s and rq = rq, OF len Raises this] that show ?thesis by blast
  qed
  have le1: "Suc 0 \<le> length ?b" using len by linarith
  have r2: "t (calls ?s1) rq = Returns resp" using assms(3) calls1 by simp
  have hr: "handle_response ?b (Suc 0) resp = Some (Inr body)"
    using assms(4,5) by (rule success_response)
  have "request_loop ?b t rq (Suc 0) le' ?s1 = (Inr body, ?s1\<lparr>calls := Suc (calls ?s1)\<rparr>)"
    using loop_returns [where t = t and s = "?s1" and rq = rq, OF le1 r2 hr] .
  then show ?thesis
    using one first by (simp add: request_def sleep_def)
qed

theorem retry_once_then_success_witness:
  "1 \<le> max_retries \<lparr>fallback = DENY, max_retries = 3\<rparr> \<and>
   retryable_outcome
     (Returns \<lparr>resp_status_code = 500, resp_json = Inr (JDict [(''error'', JStr ''internal'')])\<rparr>) \<and>
   request \<lparr>fallback = DENY, max_retries = 3\<rparr>
     (scripted
        [Returns \<lparr>resp_status_code = 500, resp_json = Inr (JDict [(''error'', JStr ''internal'')])\<rparr>]
        (Returns \<lparr>resp_status_code = 200, resp_json = Inr (JDict [(''id'', JStr ''req_1'')])\<rparr>))
     \<lparr>req_method = ''GET'', req_path = ''/api/requests/req_1'', req_json = None\<rparr> io0
   = (Inr (JDict [(''id'', JStr ''req_1'')]), \<lparr>calls = 2, slept = [1 / 2]\<rparr>) \<and>
   1 \<le> max_retries \<lparr>fallback = DENY, max_retries = 1\<rparr> \<and>
   retryable_outcome (Raises (ConnectError ''refused'')) \<and>
   request \<lparr>fallback = DENY, max_retries = 1\<rparr>
     (scripted [Raises (ConnectError ''refused'')]
        (Returns \<lparr>resp_status_code = 200, resp_json = Inr (JDict [(''id'', JStr ''req_1'')])\<rparr>))
     \<lparr>req_method = ''GET'', req_path = ''/api/requests/req_1'', req_json = None\<rparr> io0
   = (Inr (JDict [(''id'', JStr ''req_1'')]), \<lparr>calls = 2, slept = [1 / 2]\<rparr>)"
  using
    retry_once_then_success [of "\<lparr>fallback = DENY, max_retries = 3\<rparr>"
      "scripted
        [Returns \<lparr>resp_status_code = 500, resp_json = Inr (JDict [(''error'', JStr ''internal'')])\<rparr>]
        (Returns \<lparr>resp_status_code = 200, resp_json = Inr (JDict [(''id'', JStr ''req_1'')])\<rparr>)"
      io0 "\<lparr>req_method = ''GET'', req_path = ''/api/requests/req_1'', req_json = None\<rparr>"
      "\<lparr>resp_status_code = 200, resp_json = Inr (JDict [(''id'', JStr ''req_1'')])\<rparr>"
      "JDict [(''id'', JStr ''req_1'')]"]
    retry_once_then_success [of "\<lparr>fallback = DENY, max_retries = 1\<rparr>"
      "scripted [Raises (ConnectError ''refused'')]
        (Returns \<lparr>resp_status_code = 200, resp_json = Inr (JDict [(''id'', JStr ''req_1'')])\<rparr>)"
      io0 "\<lparr>req_method = ''GET'', req_path = ''/api/requests/req_1'', req_json = None\<rparr>"
      "\<lparr>resp_status_code = 200, resp_json = Inr (JDict [(''id'', JStr ''req_1'')])\<rparr>"
      "JDict [(''id'', JStr ''req_1'')]"]
  by (simp add: scripted_def io0_def RETRYABLE_STATUS_def)

lemma loop_persistent:
  assumes "\<forall>k. retryable_outcome (t k rq)"
  shows "attempt \<le> length backoffs \<Longrightarrow>
         snd (request_loop backoffs t rq attempt last_exc s) =
           \<lparr>calls = calls s + (1 + length backoffs - attempt),
            slept = slept s @ drop attempt backoffs\<rparr>"
proof (induction "length backoffs - attempt" arbitrary: attempt last_exc s)
  case 0
  then have eq: "attempt = length backoffs" by simp
  show ?case
  proof (cases "t (calls s) rq")
    case (Returns r)
    obtain res where "handle_response backoffs attempt r = Some res"
      using eq handle_response_None_iff [of backoffs attempt r] by (cases "handle_response backoffs attempt r") auto
    from loop_returns [where t = t and s = s and rq = rq, OF "0.prems" Returns this] show ?thesis using eq by simp
  next
    case (Raises e)
    obtain res where "handle_exception backoffs attempt e = Some res"
      using eq handle_exception_None_iff [of backoffs attempt e] by (cases "handle_exception backoffs attempt e") auto
    from loop_raises [where t = t and s = s and rq = rq, OF "0.prems" Raises this] show ?thesis using eq by simp
  qed
next
  case (Suc n)
  then have lt: "attempt < length backoffs" and n: "n = length backoffs - Suc attempt"
    and le: "Suc attempt \<le> length backoffs" by simp_all
  have drop: "drop attempt backoffs = backoffs ! attempt # drop (Suc attempt) backoffs"
    using lt by (simp add: Cons_nth_drop_Suc)
  have ret: "retryable_outcome (t (calls s) rq)" using assms by simp
  show ?case
  proof (cases "t (calls s) rq")
    case (Returns r)
    then have "resp_status_code r \<in> RETRYABLE_STATUS" using ret by simp
    from loop_retries_status [where t = t and s = s and rq = rq, OF lt Returns this] Suc.hyps(1) [OF n le] show ?thesis
      using lt by (simp add: sleep_def drop)
  next
    case (Raises e)
    then have "is_connect_or_timeout e" using ret by simp
    from loop_retries_exception [where t = t and s = s and rq = rq, OF lt Raises this] Suc.hyps(1) [OF n le] show ?thesis
      using lt by (simp add: sleep_def drop)
  qed
qed

text \<open>
  The number of attempts is not \<open>1 + n\<close> for every \<open>n\<close>: the table of backoffs has three
  entries, so with \<^verbatim>\<open>max_retries = 4\<close> and a transport that always answers 500 there are 4
  attempts, not 5.
\<close>

theorem attempts_one_plus_n_counterexample:
  "0 \<le> max_retries \<lparr>fallback = DENY, max_retries = 4\<rparr> \<and>
   retryable_outcome (Returns \<lparr>resp_status_code = 500, resp_json = Inr (JDict [])\<rparr>) \<and>
   calls (snd (request \<lparr>fallback = DENY, max_retries = 4\<rparr>
      (scripted [] (Returns \<lparr>resp_status_code = 500, resp_json = Inr (JDict [])\<rparr>))
      \<lparr>req_method = ''GET'', req_path = ''/api/policies'', req_json = None\<rparr> io0)) = 4 \<and>
   calls (snd (request \<lparr>fallback = DENY, max_retries = 4\<rparr>
      (scripted [] (Returns \<lparr>resp_status_code = 500, resp_json = Inr (JDict [])\<rparr>))
      \<lparr>req_method = ''GET'', req_path = ''/api/policies'', req_json = None\<rparr> io0))
     \<noteq> 1 + nat (max_retries \<lparr>fallback = DENY, max_retries = 4\<rparr>)"
  by code_simp

text \<open>
  C4, as amended. For every configured \<^verbatim>\<open>max_retries\<close> \<open>n \<ge> 0\<close> the backoff sequence is
  0.5, 1.0, 2.0 truncated to \<open>n\<close> entries, it is strictly increasing, and when every outcome
  of the transport is retryable the transport is called \<open>1 + min n 3\<close> times (one more than
  the length of the truncated sequence), the client sleeping exactly that sequence in
  between.
\<close>

theorem backoffs_and_attempts:
  assumes "0 \<le> max_retries c"
  shows "backoffs_of c = take (nat (max_retries c)) [1 / 2, 1, 2] \<and>
         sorted_wrt (<) (backoffs_of c) \<and>
         ((\<forall>k. retryable_outcome (t k rq)) \<longrightarrow>
            calls (snd (request c t rq s)) = calls s + 1 + min (nat (max_retries c)) 3 \<and>
            slept (snd (request c t rq s)) = slept s @ backoffs_of c)"
proof -
  have b: "backoffs_of c = take (nat (max_retries c)) [1 / 2, 1, 2]"
    using assms by (rule backoffs_of_nonneg)
  have "sorted_wrt (<) [1 / 2, 1, 2 :: rat]" by simp
  then have sorted: "sorted_wrt (<) (backoffs_of c)"
    unfolding b by (rule sorted_wrt_take)
  have run: "calls (snd (request c t rq s)) = calls s + 1 + min (nat (max_retries c)) 3 \<and>
             slept (snd (request c t rq s)) = slept s @ backoffs_of c"
    if "\<forall>k. retryable_outcome (t k rq)"
    using loop_persistent [where t = t and rq = rq and attempt = 0 and backoffs = "backoffs_of c"
        and last_exc = None and s = s, OF that] length_backoffs_of [OF assms]
    by (simp add: request_def)
  show ?thesis using b sorted run by blast
qed

theorem backoffs_and_attempts_witness:
  "0 \<le> max_retries \<lparr>fallback = DENY, max_retries = 2\<rparr> \<and>
   backoffs_of \<lparr>fallback = DENY, max_retries = 2\<rparr> = [1 / 2, 1] \<and>
   retryable_outcome (Raises (TimeoutException ''timed out'')) \<and>
   calls (snd (request \<lparr>fallback = DENY, max_retries = 2\<rparr>
      (scripted [] (Raises (TimeoutException ''timed out'')))
      \<lparr>req_method = ''GET'', req_path = ''/api/policies'', req_json = None\<rparr> io0)) = 3 \<and>
   slept (snd (request \<lparr>fallback = DENY, max_retries = 2\<rparr>
      (scripted [] (Raises (TimeoutException ''timed out'')))
      \<lparr>req_method = ''GET'', req_path = ''/api/policies'', req_json = None\<rparr> io0)) = [1 / 2, 1]"
  using backoffs_and_attempts [of "\<lparr>fallback = DENY, max_retries = 2\<rparr>"
      "scripted [] (Raises (TimeoutException ''timed out''))"
      "\<lparr>req_method = ''GET'', req_path = ''/api/policies'', req_json = None\<rparr>" io0]
  by (simp add: scripted_def io0_def)

section \<open>Client errors\<close>

text \<open>
  A response with a status of 400, 401 or 403 ends \<open>request\<close> in its attempt, whatever the
  retry budget. When its body decodes and the \<^verbatim>\<open>"error"\<close> entry is absent or an object, the
  error raised carries the status, the type and the body, and \<open>request_approval_safe\<close>
  raises it again.
\<close>

lemma well_formed_error:
  assumes "error_info_of data = JDict ei"
  shows "raise_http_error status data =
     Inl (AgentGate \<lparr>message = dict_get ei ''message'' (JStr (''HTTP '' @ str_int status)),
            status_code = Some status, error_type = dict_get_none ei ''type'',
            response_data = data, is_connectivity_error = False\<rparr>)"
  using assms by (simp add: raise_http_error_def http_error_def)

lemma client_error_single_attempt:
  assumes "t (calls s) rq = Returns resp" and "resp_status_code resp \<in> CLIENT_ERROR_STATUS"
  shows "snd (request c t rq s) = s\<lparr>calls := Suc (calls s)\<rparr>"
proof -
  have "resp_status_code resp \<notin> RETRYABLE_STATUS"
    using assms(2) by (auto simp: CLIENT_ERROR_STATUS_def RETRYABLE_STATUS_def)
  then obtain res where "handle_response (backoffs_of c) 0 resp = Some res"
    using handle_response_None_iff [of "backoffs_of c" 0 resp]
    by (cases "handle_response (backoffs_of c) 0 resp") auto
  from loop_returns [where t = t and s = s and rq = rq, OF _ assms(1) this]
  show ?thesis by (simp add: request_def)
qed

lemma client_error_well_formed:
  assumes "t (calls s) rq = Returns resp" and "resp_status_code resp \<in> CLIENT_ERROR_STATUS"
    and "resp_json resp = Inr data" and "error_info_of data = JDict ei"
  shows "request c t rq s =
     (Inl (AgentGate \<lparr>message =
              dict_get ei ''message'' (JStr (''HTTP '' @ str_int (resp_status_code resp))),
            status_code = Some (resp_status_code resp), error_type = dict_get_none ei ''type'',
            response_data = data, is_connectivity_error = False\<rparr>),
      s\<lparr>calls := Suc (calls s)\<rparr>)"
proof -
  have "handle_response (backoffs_of c) 0 resp =
          Some (raise_http_error (resp_status_code resp) data)"
    using assms(2,3) by (simp add: handle_response_def)
  from loop_returns [where t = t and s = s and rq = rq, OF _ assms(1) this]
  show ?thesis by (simp add: request_def well_formed_error [OF assms(4)])
qed

lemma safe_reraises_other_errors:
  assumes "request_approval c t action params context urgency expires_at s
             = (Inl (AgentGate err), s')"
    and "\<not> is_connectivity_error err"
  shows "request_approval_safe c t action params context urgency expires_at s
           = (Inl (AgentGate err), s')"
  using assms by (simp add: request_approval_safe_def)

text \<open>
  C1. A response with status 401 or 403 should make \<open>request\<close> raise an error with that
  status, type and body after one attempt, and \<open>request_approval_safe\<close> should raise it again
  instead of returning a fallback record. The code does not do so when the \<^verbatim>\<open>"error"\<close> entry
  of the body is not an object: for the body \<^verbatim>\<open>{"error": "Unauthorized"}\<close> of a 401,
  \<^verbatim>\<open>error_info.get\<close> raises AttributeError inside the \<^verbatim>\<open>try\<close>, the handler of \<^verbatim>\<open>Exception\<close> turns it
  into an error with the connectivity flag and no status, and with fallback \<^verbatim>\<open>allow\<close>
  \<open>request_approval_safe\<close> returns the fallback record with status \<^verbatim>\<open>"approved"\<close>. There is
  still one attempt only.
\<close>

theorem unauthorized_string_error_falls_back:
  "request_approval_safe \<lparr>fallback = ALLOW, max_retries = 3\<rparr>
     (scripted [] (Returns \<lparr>resp_status_code = 401,
        resp_json = Inr (JDict [(''error'', JStr ''Unauthorized'')])\<rparr>))
     ''deploy'' None None (Inl NORMAL) None io0
   = (Inr \<lparr> ar_id = JStr ''fallback'', ar_action = JStr ''deploy'',
            ar_status = JStr ''approved'', ar_decision = JStr ''approved'',
            ar_params = JDict [], ar_context = JDict [], ar_urgency = JStr ''normal'',
            ar_decided_by = JNull, ar_decided_at = JNull, ar_expires_at = JNull,
            ar_created_at = JNull, ar_updated_at = JNull,
            ar_raw = JDict [(''_fallback'', JBool True)] \<rparr>, \<lparr>calls = 1, slept = []\<rparr>) \<and>
   request \<lparr>fallback = ALLOW, max_retries = 3\<rparr>
     (scripted [] (Returns \<lparr>resp_status_code = 401,
        resp_json = Inr (JDict [(''error'', JStr ''Unauthorized'')])\<rparr>))
     \<lparr>req_method = ''POST'', req_path = ''/api/requests'',
      req_json = Some (JDict [(''action'', JStr ''deploy''), (''urgency'', JStr ''normal'')])\<rparr> io0
   = (Inl (AgentGate \<lparr>message =
             JStr (''Unexpected error: '' @ no_attribute (JStr ''Unauthorized'') ''get''),
           status_code = None, error_type = JNull, response_data = JNull,
           is_connectivity_error = True\<rparr>), \<lparr>calls = 1, slept = []\<rparr>)"
  by code_simp

section \<open>Retries exhausted on a retryable status\<close>

text \<open>
  When every outcome is retryable and the last attempt gets a response whose body
  decodes, with an \<^verbatim>\<open>"error"\<close> entry that is absent or an object, that response goes
  through the normal path: the error raised carries its status, the parsed message and
  type, and the body, with the connectivity flag false.
\<close>

lemma loop_exhausted_well_formed:
  assumes "\<forall>k. retryable_outcome (t k rq)"
    and "resp_json resp = Inr data" and "error_info_of data = JDict ei"
  shows "attempt \<le> length backoffs \<Longrightarrow>
         t (calls s + (length backoffs - attempt)) rq = Returns resp \<Longrightarrow>
         fst (request_loop backoffs t rq attempt last_exc s) =
           Inl (AgentGate \<lparr>message =
                  dict_get ei ''message'' (JStr (''HTTP '' @ str_int (resp_status_code resp))),
                status_code = Some (resp_status_code resp),
                error_type = dict_get_none ei ''type'',
                response_data = data, is_connectivity_error = False\<rparr>)"
proof (induction "length backoffs - attempt" arbitrary: attempt last_exc s)
  case 0
  then have eq: "attempt = length backoffs" and last: "t (calls s) rq = Returns resp" by simp_all
  have "resp_status_code resp \<in> RETRYABLE_STATUS"
    using assms(1) last by (metis retryable_outcome.simps(1))
  then have "handle_response backoffs attempt resp =
               Some (raise_http_error (resp_status_code resp) data)"
    using eq assms(2)
    by (auto simp: handle_response_def RETRYABLE_STATUS_def CLIENT_ERROR_STATUS_def)
  from loop_returns [where t = t and s = s and rq = rq, OF "0.prems"(1) last this]
  show ?case by (simp add: well_formed_error [OF assms(3)])
next
  case (Suc n)
  then have lt: "attempt < length backoffs" and n: "n = length backoffs - Suc attempt"
    and le: "Suc attempt \<le> length backoffs" by simp_all
  let ?s1 = "sleep (backoffs ! attempt) (s\<lparr>calls := Suc (calls s)\<rparr>)"
  have "calls ?s1 + (length backoffs - Suc attempt) = calls s + (length backoffs - attempt)"
    using lt by (simp add: sleep_def)
  then have final: "t (calls ?s1 + (length backoffs - Suc attempt)) rq = Returns resp"
    using Suc.prems(2) by simp
  have ret: "retryable_outcome (t (calls s) rq)" using assms(1) by simp
  show ?case
  proof (cases "t (calls s) rq")
    case (Returns r)
    then have "resp_status_code r \<in> RETRYABLE_STATUS" using ret by simp
    from loop_retries_status [where t = t and s = s and rq = rq, OF lt Returns this]
      Suc.hyps(1) [OF n le final]
    show ?thesis by simp
  next
    case (Raises e)
    then have "is_connect_or_timeout e" using ret by simp
    from loop_retries_exception [where t = t and s = s and rq = rq, OF lt Raises this]
      Suc.hyps(1) [OF n le final]
    show ?thesis by simp
  qed
qed

lemma retries_exhausted_well_formed:
  assumes "\<forall>k. retryable_outcome (t k rq)"
    and "t (calls s + length (backoffs_of c)) rq = Returns resp"
    and "resp_json resp = Inr data" and "error_info_of data = JDict ei"
  shows "fst (request c t rq s) =
           Inl (AgentGate \<lparr>message =
                  dict_get ei ''message'' (JStr (''HTTP '' @ str_int (resp_status_code resp))),
                status_code = Some (resp_status_code resp),
                error_type = dict_get_none ei ''type'',
                response_data = data, is_connectivity_error = False\<rparr>)"
  using loop_exhausted_well_formed [where t = t and rq = rq and s = s and attempt = 0
      and backoffs = "backoffs_of c" and last_exc = None, OF assms(1,3,4)] assms(2)
  by (simp add: request_def)

text \<open>
  C5. When every attempt returns a retryable status and the retries are exhausted,
  \<open>request\<close> should raise an error with the status, message, type and body of the last
  response and the connectivity flag false, not an error with the connectivity flag. The
  code does not do so when the \<^verbatim>\<open>"error"\<close> entry of the last body is not an object: with
  the body \<^verbatim>\<open>{"error": "internal"}\<close> on every 500, the fourth attempt ends in
  \<^verbatim>\<open>error_info.get\<close> raising AttributeError, which the handler of \<^verbatim>\<open>Exception\<close> turns into an
  error with the connectivity flag and no status.
\<close>

theorem exhausted_string_error_is_connectivity:
  "request \<lparr>fallback = DENY, max_retries = 3\<rparr>
     (scripted [] (Returns \<lparr>resp_status_code = 500,
        resp_json = Inr (JDict [(''error'', JStr ''internal'')])\<rparr>))
     \<lparr>req_method = ''GET'', req_path = ''/api/requests/req_1'', req_json = None\<rparr> io0
   = (Inl (AgentGate \<lparr>message =
             JStr (''Unexpected error: '' @ no_attribute (JStr ''internal'') ''get''),
           status_code = None, error_type = JNull, response_data = JNull,
           is_connectivity_error = True\<rparr>), \<lparr>calls = 4, slept = [1 / 2, 1, 2]\<rparr>)"
  by code_simp

section \<open>Graceful degradation\<close>

text \<open>
  C2. When \<open>request_approval\<close> raises an error whose connectivity flag is set,
  \<open>request_approval_safe\<close> returns, instead of raising, the record with id \<^verbatim>\<open>"fallback"\<close>, the
  given action, the given params and context or the empty dict, and status and decision
  both \<^verbatim>\<open>"denied"\<close> under fallback \<^verbatim>\<open>deny\<close> and both \<^verbatim>\<open>"approved"\<close> under fallback \<^verbatim>\<open>allow\<close>; the
  other fields keep the defaults of the dataclass and \<^verbatim>\<open>raw\<close> is \<^verbatim>\<open>{"_fallback": True}\<close>.
\<close>

theorem fallback_on_connectivity_error:
  assumes "request_approval c t action params context urgency expires_at s
             = (Inl (AgentGate err), s')"
    and "is_connectivity_error err"
  shows "request_approval_safe c t action params context urgency expires_at s =
     (Inr \<lparr> ar_id = JStr ''fallback'',
            ar_action = JStr action,
            ar_status = JStr (case fallback c of DENY \<Rightarrow> ''denied'' | ALLOW \<Rightarrow> ''approved''),
            ar_decision = JStr (case fallback c of DENY \<Rightarrow> ''denied'' | ALLOW \<Rightarrow> ''approved''),
            ar_params = JDict (case params of None \<Rightarrow> [] | Some d \<Rightarrow> d),
            ar_context = JDict (case context of None \<Rightarrow> [] | Some d \<Rightarrow> d),
            ar_urgency = JStr ''normal'',
            ar_decided_by = JNull, ar_decided_at = JNull, ar_expires_at = JNull,
            ar_created_at = JNull, ar_updated_at = JNull,
            ar_raw = JDict [(''_fallback'', JBool True)] \<rparr>, s')"
proof -
  have p: "or_empty x = JDict (case x of None \<Rightarrow> [] | Some d \<Rightarrow> d)" for x
    by (simp add: or_empty_def truthy_def split: option.splits)
  have f: "(if fallback c = ALLOW then ''approved'' else ''denied'')
             = (case fallback c of DENY \<Rightarrow> ''denied'' | ALLOW \<Rightarrow> ''approved'')"
    by (cases "fallback c") simp_all
  show ?thesis
    using assms by (simp add: request_approval_safe_def fallback_request_def Let_def p f)
qed

theorem fallback_on_connectivity_error_witness:
  "request_approval \<lparr>fallback = DENY, max_retries = 0\<rparr>
      (scripted [] (Raises (ConnectError ''refused''))) ''deploy'' None None (Inl NORMAL) None io0
    = (Inl (AgentGate \<lparr>message = JStr ''Connection failed: refused'', status_code = None,
              error_type = JNull, response_data = JNull, is_connectivity_error = True\<rparr>),
       \<lparr>calls = 1, slept = []\<rparr>) \<and>
   request_approval_safe \<lparr>fallback = DENY, max_retries = 0\<rparr>
      (scripted [] (Raises (ConnectError ''refused''))) ''deploy'' None None (Inl NORMAL) None io0
    = (Inr \<lparr> ar_id = JStr ''fallback'', ar_action = JStr ''deploy'',
             ar_status = JStr ''denied'', ar_decision = JStr ''denied'',
             ar_params = JDict [], ar_context = JDict [], ar_urgency = JStr ''normal'',
             ar_decided_by = JNull, ar_decided_at = JNull, ar_expires_at = JNull,
             ar_created_at = JNull, ar_updated_at = JNull,
             ar_raw = JDict [(''_fallback'', JBool True)] \<rparr>, \<lparr>calls = 1, slept = []\<rparr>) \<and>
   request_approval_safe \<lparr>fallback = ALLOW, max_retries = 0\<rparr>
      (scripted [] (Raises (ConnectError ''refused''))) ''deploy''
      (Some [(''env'', JStr ''prod'')]) None (Inl NORMAL) None io0
    = (Inr \<lparr> ar_id = JStr ''fallback'', ar_action = JStr ''deploy'',
             ar_status = JStr ''approved'', ar_decision = JStr ''approved'',
             ar_params = JDict [(''env'', JStr ''prod'')], ar_context = JDict [],
             ar_urgency = JStr ''normal'',
             ar_decided_by = JNull, ar_decided_at = JNull, ar_expires_at = JNull,
             ar_created_at = JNull, ar_updated_at = JNull,
             ar_raw = JDict [(''_fallback'', JBool True)] \<rparr>, \<lparr>calls = 1, slept = []\<rparr>)"
proof -
  let ?t = "scripted [] (Raises (ConnectError ''refused''))"
  let ?e = "\<lparr>message = JStr ''Connection failed: refused'', status_code = None,
             error_type = JNull, response_data = JNull, is_connectivity_error = True\<rparr>"
  have deny: "request_approval \<lparr>fallback = DENY, max_retries = 0\<rparr> ?t ''deploy'' None None
                (Inl NORMAL) None io0 = (Inl (AgentGate ?e), \<lparr>calls = 1, slept = []\<rparr>)"
    by code_simp
  have allow: "request_approval \<lparr>fallback = ALLOW, max_retries = 0\<rparr> ?t ''deploy''
                (Some [(''env'', JStr ''prod'')]) None (Inl NORMAL) None io0
                = (Inl (AgentGate ?e), \<lparr>calls = 1, slept = []\<rparr>)"
    by code_simp
  have flag: "is_connectivity_error ?e" by simp
  show ?thesis
    using deny fallback_on_connectivity_error [OF deny flag]
      fallback_on_connectivity_error [OF allow flag]
    by simp
qed

section \<open>The connectivity flag\<close>

lemma handle_response_error:
  assumes "handle_response backoffs attempt resp = Some (Inl (AgentGate e))"
  shows "(is_connectivity_error e \<longleftrightarrow> status_code e = None) \<and>
         (\<not> is_connectivity_error e \<longrightarrow>
            (\<exists>data. resp_json resp = Inr data \<and> 400 \<le> resp_status_code resp \<and>
                    status_code e = Some (resp_status_code resp) \<and> response_data e = data))"
  using assms
  by (auto simp: handle_response_def raise_http_error_def http_error_def unexpected_def
        connectivity_error_def CLIENT_ERROR_STATUS_def
      split: if_splits sum.splits json.splits)

lemma handle_exception_error:
  assumes "handle_exception backoffs attempt x = Some (Inl (AgentGate e))"
  shows "is_connectivity_error e \<and> status_code e = None"
  using assms
  by (auto simp: handle_exception_def unexpected_def connectivity_error_def split: if_splits)

lemma handle_response_well_formed_error:
  assumes "handle_response backoffs attempt resp = Some (Inl (AgentGate e))"
    and "resp_json resp = Inr data" and "error_info_of data = JDict ei"
  shows "\<not> is_connectivity_error e \<and> 400 \<le> resp_status_code resp \<and>
         status_code e = Some (resp_status_code resp) \<and> response_data e = data"
  using assms
  by (auto simp: handle_response_def well_formed_error CLIENT_ERROR_STATUS_def
      split: if_splits)

lemma handle_response_success_status_error:
  assumes "handle_response backoffs attempt resp = Some (Inl (AgentGate e))"
    and "resp_status_code resp < 400"
  shows "is_connectivity_error e \<and> (\<exists>m. resp_json resp = Inl m)"
  using assms
  by (auto simp: handle_response_def unexpected_def connectivity_error_def
        CLIENT_ERROR_STATUS_def RETRYABLE_STATUS_def
      split: if_splits sum.splits)

text \<open>
  An error that the loop raises is the result of handling, in some attempt, the outcome
  of the last call of the transport.
\<close>

lemma loop_error_last_call:
  "attempt \<le> length backoffs \<Longrightarrow>
   request_loop backoffs t rq attempt last_exc s = (Inl (AgentGate e), s') \<Longrightarrow>
   \<exists>a. case t (calls s' - 1) rq of
          Returns resp \<Rightarrow> handle_response backoffs a resp = Some (Inl (AgentGate e))
        | Raises x \<Rightarrow> handle_exception backoffs a x = Some (Inl (AgentGate e))"
proof (induction "length backoffs - attempt" arbitrary: attempt last_exc s)
  case 0
  then have eq: "attempt = length backoffs" by simp
  show ?case
  proof (cases "t (calls s) rq")
    case (Returns r)
    obtain res where res: "handle_response backoffs attempt r = Some res"
      using eq handle_response_None_iff [of backoffs attempt r]
      by (cases "handle_response backoffs attempt r") auto
    from loop_returns [where t = t and s = s and rq = rq, OF "0.prems"(1) Returns res] "0.prems"(2)
    have "res = Inl (AgentGate e)" and "s' = s\<lparr>calls := Suc (calls s)\<rparr>" by simp_all
    with res Returns show ?thesis by auto
  next
    case (Raises x)
    obtain res where res: "handle_exception backoffs attempt x = Some res"
      using eq handle_exception_None_iff [of backoffs attempt x]
      by (cases "handle_exception backoffs attempt x") auto
    from loop_raises [where t = t and s = s and rq = rq, OF "0.prems"(1) Raises res] "0.prems"(2)
    have "res = Inl (AgentGate e)" and "s' = s\<lparr>calls := Suc (calls s)\<rparr>" by simp_all
    with res Raises show ?thesis by auto
  qed
next
  case (Suc n)
  then have lt: "attempt < length backoffs" and n: "n = length backoffs - Suc attempt"
    and le: "Suc attempt \<le> length backoffs" by simp_all
  show ?case
  proof (cases "t (calls s) rq")
    case (Returns r)
    show ?thesis
    proof (cases "handle_response backoffs attempt r")
      case None
      then have "resp_status_code r \<in> RETRYABLE_STATUS" by (simp add: handle_response_None_iff)
      from loop_retries_status [where t = t and s = s and rq = rq, OF lt Returns this] Suc.prems(2)
      have "request_loop backoffs t rq (Suc attempt) last_exc
              (sleep (backoffs ! attempt) (s\<lparr>calls := Suc (calls s)\<rparr>)) = (Inl (AgentGate e), s')"
        by simp
      from Suc.hyps(1) [OF n le this] show ?thesis .
    next
      case (Some res)
      from loop_returns [where t = t and s = s and rq = rq, OF Suc.prems(1) Returns Some] Suc.prems(2)
      have "res = Inl (AgentGate e)" and "s' = s\<lparr>calls := Suc (calls s)\<rparr>" by simp_all
      with Some Returns show ?thesis by auto
    qed
  next
    case (Raises x)
    show ?thesis
    proof (cases "handle_exception backoffs attempt x")
      case None
      then have "is_connect_or_timeout x" by (simp add: handle_exception_None_iff)
      from loop_retries_exception [where t = t and s = s and rq = rq, OF lt Raises this] Suc.prems(2)
      have "request_loop backoffs t rq (Suc attempt) (Some x)
              (sleep (backoffs ! attempt) (s\<lparr>calls := Suc (calls s)\<rparr>)) = (Inl (AgentGate e), s')"
        by simp
      from Suc.hyps(1) [OF n le this] show ?thesis .
    next
      case (Some res)
      from loop_raises [where t = t and s = s and rq = rq, OF Suc.prems(1) Raises Some] Suc.prems(2)
      have "res = Inl (AgentGate e)" and "s' = s\<lparr>calls := Suc (calls s)\<rparr>" by simp_all
      with Some Raises show ?thesis by auto
    qed
  qed
qed

text \<open>
  The public operations raise an \<open>AgentGateError\<close> only by passing on the one that
  \<open>request\<close> raised, in the same state; what the decoding step adds is an AttributeError or
  a TypeError, which have no flag.
\<close>

lemma request_approval_error_from_request:
  assumes "request_approval c t action params context urgency expires_at s
             = (Inl (AgentGate err), s')"
  shows "request c t
           \<lparr>req_method = ''POST'', req_path = ''/api/requests'',
            req_json = Some (JDict (approval_body action params context urgency expires_at))\<rparr> s
         = (Inl (AgentGate err), s')"
  using assms
  by (auto simp: request_approval_def decode_with_def split: prod.splits sum.splits json.splits)

lemma check_decision_error_from_request:
  assumes "check_decision c t request_id s = (Inl (AgentGate err), s')"
  shows "request c t
           \<lparr>req_method = ''GET'', req_path = ''/api/requests/'' @ request_id, req_json = None\<rparr> s
         = (Inl (AgentGate err), s')"
  using assms
  by (auto simp: check_decision_def decode_with_def split: prod.splits sum.splits json.splits)

lemma policies_of_no_agentgate_error: "policies_of xs \<noteq> Inl (AgentGate err)"
  by (induction xs) (auto simp: decode_with_def split: sum.splits json.splits)

lemma list_policies_error_from_request:
  assumes "list_policies c t s = (Inl (AgentGate err), s')"
  shows "request c t \<lparr>req_method = ''GET'', req_path = ''/api/policies'', req_json = None\<rparr> s
         = (Inl (AgentGate err), s')"
  using assms
  by (auto simp: list_policies_def decode_policies_def iterate_def not_iterable_def
        policies_of_no_agentgate_error split: prod.splits sum.splits json.splits)

text \<open>
  The flag can be true although a response was obtained: a 200 response whose body is
  not JSON makes \<^verbatim>\<open>resp.json()\<close> raise inside the \<^verbatim>\<open>try\<close>, and the error raised for it has the
  flag set.
\<close>

theorem connectivity_flag_iff_counterexample:
  "request \<lparr>fallback = DENY, max_retries = 3\<rparr>
     (scripted [] (Returns \<lparr>resp_status_code = 200, resp_json = Inl ''Expecting value''\<rparr>))
     \<lparr>req_method = ''GET'', req_path = ''/api/policies'', req_json = None\<rparr> io0
   = (Inl (AgentGate \<lparr>message = JStr ''Unexpected error: Expecting value'', status_code = None,
             error_type = JNull, response_data = JNull, is_connectivity_error = True\<rparr>),
      \<lparr>calls = 1, slept = []\<rparr>) \<and>
   response_obtained
     (scripted [] (Returns \<lparr>resp_status_code = 200, resp_json = Inl ''Expecting value''\<rparr>))
     \<lparr>req_method = ''GET'', req_path = ''/api/policies'', req_json = None\<rparr>
     \<lparr>calls = 1, slept = []\<rparr>"
  by code_simp

text \<open>
  C6, as amended. For every error that \<open>request\<close> raises, seen from the attempt that
  raised it: when no HTTP response was obtained, the connectivity flag is true; when a
  response was obtained whose body decodes and whose \<^verbatim>\<open>"error"\<close> entry is absent or an
  object, the error is built from that response, so the flag is false, the status is at
  least 400 and the error carries that status and that body; when a response with a
  status below 400 was obtained, its body is not JSON and the flag is true. The flag is
  true exactly when the error carries no status code, and an error with the flag false
  was built from a response obtained in that attempt. Nothing is said of a decoded body
  whose \<^verbatim>\<open>"error"\<close> entry is not an object.
\<close>

theorem connectivity_flag_by_origin:
  assumes "request c t rq s = (Inl (AgentGate e), s')"
  shows "(\<not> response_obtained t rq s' \<longrightarrow> is_connectivity_error e) \<and>
         (\<forall>resp data ei.
            t (calls s' - 1) rq = Returns resp \<and> resp_json resp = Inr data \<and>
            error_info_of data = JDict ei \<longrightarrow>
              \<not> is_connectivity_error e \<and> 400 \<le> resp_status_code resp \<and>
              status_code e = Some (resp_status_code resp) \<and> response_data e = data) \<and>
         (\<forall>resp.
            t (calls s' - 1) rq = Returns resp \<and> resp_status_code resp < 400 \<longrightarrow>
              is_connectivity_error e \<and> (\<exists>m. resp_json resp = Inl m)) \<and>
         (is_connectivity_error e \<longleftrightarrow> status_code e = None) \<and>
         (\<not> is_connectivity_error e \<longrightarrow>
            (\<exists>resp data. t (calls s' - 1) rq = Returns resp \<and> resp_json resp = Inr data \<and>
               400 \<le> resp_status_code resp \<and> status_code e = Some (resp_status_code resp) \<and>
               response_data e = data))"
proof -
  have "0 \<le> length (backoffs_of c)" by simp
  moreover have "request_loop (backoffs_of c) t rq 0 None s = (Inl (AgentGate e), s')"
    using assms by (simp add: request_def)
  ultimately obtain a where a: "case t (calls s' - 1) rq of
        Returns resp \<Rightarrow> handle_response (backoffs_of c) a resp = Some (Inl (AgentGate e))
      | Raises x \<Rightarrow> handle_exception (backoffs_of c) a x = Some (Inl (AgentGate e))"
    using loop_error_last_call [of 0 "backoffs_of c" t rq None s e s'] by blast
  show ?thesis
  proof (cases "t (calls s' - 1) rq")
    case (Returns r)
    with a have h: "handle_response (backoffs_of c) a r = Some (Inl (AgentGate e))" by simp
    have obt: "response_obtained t rq s'" using Returns by (simp add: response_obtained_def)
    note basic = handle_response_error [OF h]
    have wf: "\<not> is_connectivity_error e \<and> 400 \<le> resp_status_code resp \<and>
              status_code e = Some (resp_status_code resp) \<and> response_data e = data"
      if "t (calls s' - 1) rq = Returns resp" and "resp_json resp = Inr data"
        and "error_info_of data = JDict ei" for resp data ei
    proof -
      have "resp = r" using that(1) Returns by simp
      then show ?thesis
        using handle_response_well_formed_error [OF h, of data ei] that(2,3) by simp
    qed
    have ok: "is_connectivity_error e \<and> (\<exists>m. resp_json resp = Inl m)"
      if "t (calls s' - 1) rq = Returns resp" and "resp_status_code resp < 400" for resp
    proof -
      have "resp = r" using that(1) Returns by simp
      then show ?thesis
        using handle_response_success_status_error [OF h] that(2) by simp
    qed
    have last: "\<exists>resp data. t (calls s' - 1) rq = Returns resp \<and> resp_json resp = Inr data \<and>
               400 \<le> resp_status_code resp \<and> status_code e = Some (resp_status_code resp) \<and>
               response_data e = data" if "\<not> is_connectivity_error e"
      using basic that Returns by blast
    show ?thesis
      using obt basic wf ok last by blast
  next
    case (Raises x)
    with a have h: "handle_exception (backoffs_of c) a x = Some (Inl (AgentGate e))" by simp
    from handle_exception_error [OF h] show ?thesis using Raises by simp
  qed
qed

theorem connectivity_flag_by_origin_witness:
  "request \<lparr>fallback = DENY, max_retries = 3\<rparr>
     (scripted [] (Returns \<lparr>resp_status_code = 403,
        resp_json = Inr (JDict [(''error'', JDict [(''message'', JStr ''Forbidden'')])])\<rparr>))
     \<lparr>req_method = ''POST'', req_path = ''/api/requests'', req_json = None\<rparr> io0
   = (Inl (AgentGate \<lparr>message = JStr ''Forbidden'', status_code = Some 403, error_type = JNull,
        response_data = JDict [(''error'', JDict [(''message'', JStr ''Forbidden'')])],
        is_connectivity_error = False\<rparr>), \<lparr>calls = 1, slept = []\<rparr>) \<and>
   response_obtained
     (scripted [] (Returns \<lparr>resp_status_code = 403,
        resp_json = Inr (JDict [(''error'', JDict [(''message'', JStr ''Forbidden'')])])\<rparr>))
     \<lparr>req_method = ''POST'', req_path = ''/api/requests'', req_json = None\<rparr>
     \<lparr>calls = 1, slept = []\<rparr> \<and>
   error_info_of (JDict [(''error'', JDict [(''message'', JStr ''Forbidden'')])])
     = JDict [(''message'', JStr ''Forbidden'')] \<and>
   request \<lparr>fallback = DENY, max_retries = 1\<rparr>
     (scripted [] (Raises (ConnectError ''refused'')))
     \<lparr>req_method = ''POST'', req_path = ''/api/requests'', req_json = None\<rparr> io0
   = (Inl (AgentGate \<lparr>message = JStr ''Connection failed: refused'', status_code = None,
        error_type = JNull, response_data = JNull, is_connectivity_error = True\<rparr>),
      \<lparr>calls = 2, slept = [1 / 2]\<rparr>) \<and>
   \<not> response_obtained (scripted [] (Raises (ConnectError ''refused'')))
     \<lparr>req_method = ''POST'', req_path = ''/api/requests'', req_json = None\<rparr>
     \<lparr>calls = 2, slept = [1 / 2]\<rparr> \<and>
   request \<lparr>fallback = DENY, max_retries = 3\<rparr>
     (scripted [] (Returns \<lparr>resp_status_code = 204, resp_json = Inl ''Expecting value''\<rparr>))
     \<lparr>req_method = ''POST'', req_path = ''/api/requests'', req_json = None\<rparr> io0
   = (Inl (AgentGate \<lparr>message = JStr ''Unexpected error: Expecting value'', status_code = None,
        error_type = JNull, response_data = JNull, is_connectivity_error = True\<rparr>),
      \<lparr>calls = 1, slept = []\<rparr>)"
proof -
  let ?rq = "\<lparr>req_method = ''POST'', req_path = ''/api/requests'', req_json = None\<rparr>"
  let ?d1 = "JDict [(''error'', JDict [(''message'', JStr ''Forbidden'')])]"
  let ?r1 = "\<lparr>resp_status_code = 403, resp_json = Inr ?d1\<rparr>"
  let ?t1 = "scripted [] (Returns ?r1)"
  let ?e1 = "\<lparr>message = JStr ''Forbidden'', status_code = Some 403, error_type = JNull,
        response_data = ?d1, is_connectivity_error = False\<rparr>"
  let ?s1 = "\<lparr>calls = 1, slept = []\<rparr>"
  let ?t2 = "scripted [] (Raises (ConnectError ''refused''))"
  let ?e2 = "\<lparr>message = JStr ''Connection failed: refused'', status_code = None,
        error_type = JNull, response_data = JNull, is_connectivity_error = True\<rparr>"
  let ?s2 = "\<lparr>calls = 2, slept = [1 / 2]\<rparr>"
  let ?r3 = "\<lparr>resp_status_code = 204, resp_json = Inl ''Expecting value''\<rparr>"
  let ?t3 = "scripted [] (Returns ?r3)"
  let ?e3 = "\<lparr>message = JStr ''Unexpected error: Expecting value'', status_code = None,
        error_type = JNull, response_data = JNull, is_connectivity_error = True\<rparr>"
  have r1: "request \<lparr>fallback = DENY, max_retries = 3\<rparr> ?t1 ?rq io0 = (Inl (AgentGate ?e1), ?s1)"
    by code_simp
  have r2: "request \<lparr>fallback = DENY, max_retries = 1\<rparr> ?t2 ?rq io0 = (Inl (AgentGate ?e2), ?s2)"
    by code_simp
  have r3: "request \<lparr>fallback = DENY, max_retries = 3\<rparr> ?t3 ?rq io0 = (Inl (AgentGate ?e3), ?s1)"
    by code_simp
  have ei: "error_info_of ?d1 = JDict [(''message'', JStr ''Forbidden'')]"
    by (simp add: error_info_of_def dict_get_def)
  have l1: "?t1 (calls ?s1 - 1) ?rq = Returns ?r1" and l3: "?t3 (calls ?s1 - 1) ?rq = Returns ?r3"
    by (simp_all add: scripted_def)
  have o2: "\<not> response_obtained ?t2 ?rq ?s2"
    by (simp add: response_obtained_def scripted_def)
  from connectivity_flag_by_origin [OF r1] have o1: "response_obtained ?t1 ?rq ?s1"
    by simp
  from connectivity_flag_by_origin [OF r1] l1 ei
  have f1: "\<not> is_connectivity_error ?e1 \<and> status_code ?e1 = Some 403"
    by simp
  from connectivity_flag_by_origin [OF r2] o2 have f2: "is_connectivity_error ?e2" by simp
  from connectivity_flag_by_origin [OF r3] l3 have f3: "is_connectivity_error ?e3" by simp
  show ?thesis
    using r1 r2 r3 o1 o2 ei f1 f2 f3 by simp
qed

end
